theory Spec2Isabelle
  imports Main "HOL-Library.Word"
begin

section \<open>The constants of lua.h\<close>

text \<open>
  Every constant of the header is a \<^verbatim>\<open>const int\<close>; it is embedded as an integer
  with the initialiser the header gives it.  The type tags:
\<close>

definition LUA_TNONE :: int where "LUA_TNONE = -1"
definition LUA_TNIL :: int where "LUA_TNIL = 0"
definition LUA_TBOOLEAN :: int where "LUA_TBOOLEAN = 1"
definition LUA_TLIGHTUSERDATA :: int where "LUA_TLIGHTUSERDATA = 2"
definition LUA_TNUMBER :: int where "LUA_TNUMBER = 3"
definition LUA_TSTRING :: int where "LUA_TSTRING = 4"
definition LUA_TTABLE :: int where "LUA_TTABLE = 5"
definition LUA_TFUNCTION :: int where "LUA_TFUNCTION = 6"
definition LUA_TUSERDATA :: int where "LUA_TUSERDATA = 7"
definition LUA_TTHREAD :: int where "LUA_TTHREAD = 8"

definition LUA_MULTRET :: int where "LUA_MULTRET = -1"

text \<open>The status codes; the last one is written as a sum in the header.\<close>

definition LUA_OK :: int where "LUA_OK = 0"
definition LUA_YIELD :: int where "LUA_YIELD = 1"
definition LUA_ERRRUN :: int where "LUA_ERRRUN = 2"
definition LUA_ERRSYNTAX :: int where "LUA_ERRSYNTAX = 3"
definition LUA_ERRMEM :: int where "LUA_ERRMEM = 4"
definition LUA_ERRERR :: int where "LUA_ERRERR = 5"
definition LUA_ERRFILE :: int where "LUA_ERRFILE = LUA_ERRERR + 1"

text \<open>
  The pseudo-indices and the macro \<^verbatim>\<open>lua_upvalueindex(i)\<close>, which is
  \<^verbatim>\<open>(LUA_GLOBALSINDEX - (i))\<close>.  The subtraction is one of C \<^verbatim>\<open>int\<close>, 32 bits wide
  in two's complement: a difference outside that range comes back wrapped around, which
  \<open>wrap_int\<close> writes out.
\<close>

definition LUA_REGISTRYINDEX :: int where "LUA_REGISTRYINDEX = -10000"
definition LUA_ENVIRONINDEX :: int where "LUA_ENVIRONINDEX = -10001"
definition LUA_GLOBALSINDEX :: int where "LUA_GLOBALSINDEX = -10002"

definition wrap_int :: "int \<Rightarrow> int" where
  "wrap_int x = (x + 2147483648) mod 4294967296 - 2147483648"

definition lua_upvalueindex :: "int \<Rightarrow> int" where
  "lua_upvalueindex i = wrap_int (LUA_GLOBALSINDEX - i)"

text \<open>The two reserved reference values.\<close>

definition LUA_NOREF :: int where "LUA_NOREF = -2"
definition LUA_REFNIL :: int where "LUA_REFNIL = -1"

definition LUA_IDSIZE :: nat where "LUA_IDSIZE = 128"

section \<open>The macro \<^verbatim>\<open>abs_index\<close>\<close>

text \<open>
  \<^verbatim>\<open>#define abs_index(L, i) ((i) > 0 || (i) <= LUA_REGISTRYINDEX ? (i) : lua_gettop(L) + (i) + 1)\<close>

  The header only declares \<^verbatim>\<open>lua_gettop\<close> and leaves \<^verbatim>\<open>lua_State\<close> opaque, so the
  macro is embedded over an arbitrary state type \<open>'s\<close> and takes the function it calls
  as its first argument, \<open>gettop\<close>; the theorems about it hold for every such function.
  The two additions of the macro are written over the integers: \<open>c_int\<close> below marks
  the values a 32-bit \<^verbatim>\<open>int\<close> holds, and by \<open>abs_index_c_int\<close> no sum leaves them for
  any index other than 0 over a stack of non-negative depth.
\<close>

definition abs_index :: "('s \<Rightarrow> int) \<Rightarrow> 's \<Rightarrow> int \<Rightarrow> int" where
  "abs_index gettop L i =
     (if 0 < i \<or> i \<le> LUA_REGISTRYINDEX then i else gettop L + i + 1)"

definition c_int :: "int \<Rightarrow> bool" where
  "c_int x = (- 2147483648 \<le> x \<and> x \<le> 2147483647)"

section \<open>The runtime behind the declarations\<close>

text \<open>
  lua.h declares the functions of the runtime and leaves \<^verbatim>\<open>lua_State\<close> opaque; their
  bodies are in the Lua library the header binds to.  The definitions of this section are
  written from the specification of that runtime, each under a note that says so and
  names the sentences it follows.
\<close>

text \<open>
  Modelled from the spec: the representation of a value, which the header hides behind
  \<^verbatim>\<open>lua_State\<close>.  Data model, Value: "a tagged union over nil, boolean, number
  (double-precision), string (immutable byte sequence), table, function, userdata,
  thread, light-userdata (raw pointer)".  A number carries the 64 bits of its double, a
  light userdata its address, and a table, function, userdata or thread the address of
  the object in the heap of the runtime.
\<close>

datatype lua_value =
    LNil
  | LBoolean bool
  | LLightUserdata nat
  | LNumber "64 word"
  | LString string
  | LTable nat
  | LFunction nat
  | LUserdata nat
  | LThread nat

text \<open>
  Modelled from the spec: a registry entry table, the part of a table that
  \<^verbatim>\<open>luaL_ref\<close> and \<^verbatim>\<open>luaL_unref\<close> use.  Data model, Registry entry: "a mapping from
  a small non-negative integer handle to a retained Value inside a designated table.
  Handles are unique among currently-live entries in that table and are drawn from a
  recycling free-list".  \<open>entries\<close> holds the live entries, \<open>free_list\<close> the released
  handles, and \<open>next_ref\<close> is the handle allocated when the free list is empty.
\<close>

record ref_table =
  entries :: "int \<rightharpoonup> lua_value"
  free_list :: "int list"
  next_ref :: int

text \<open>
  The header's \<^verbatim>\<open>char short_src[LUA_IDSIZE]\<close>: an array of exactly \<open>LUA_IDSIZE\<close>
  bytes.  \<open>buffer_string\<close> reads the string it holds, the bytes before the first
  terminator; \<open>buffer_of\<close> builds the array that holds a given string, cut to the
  capacity less one and filled up with terminators, for the examples.
\<close>

typedef id_buffer = "{s :: char list. length s = LUA_IDSIZE}"
  by (rule exI [of _ "replicate LUA_IDSIZE (CHR 0x00)"]) simp

setup_lifting type_definition_id_buffer

definition buffer_string :: "id_buffer \<Rightarrow> string" where
  "buffer_string b = takeWhile (\<lambda>c. c \<noteq> CHR 0x00) (Rep_id_buffer b)"

lift_definition buffer_of :: "string \<Rightarrow> id_buffer" is
  "\<lambda>s. take (LUA_IDSIZE - 1) s
        @ replicate (LUA_IDSIZE - length (take (LUA_IDSIZE - 1) s)) (CHR 0x00)"
  by (simp add: LUA_IDSIZE_def)

text \<open>
  Modelled from the spec: one frame of the call chain, with the data \<^verbatim>\<open>lua_getinfo\<close>
  reports about it.  The fields are those of \<^verbatim>\<open>lua_Debug\<close> that the header marks with a
  selector letter.  A \<^verbatim>\<open>const char *\<close> is a string or the null pointer.
\<close>

record frame =
  f_name :: "string option"
  f_namewhat :: "string option"
  f_what :: "string option"
  f_source :: "string option"
  f_currentline :: int
  f_nups :: int
  f_linedefined :: int
  f_lastlinedefined :: int
  f_short_src :: id_buffer

text \<open>
  Modelled from the spec: the state behind the opaque \<^verbatim>\<open>lua_State\<close>.  Data model, Stack:
  "an ordered, growable sequence of Values", bottom first; State: "an interpreter
  instance owning a Globals table, a Registry table, ... and the currently executing
  call-frame chain".  \<open>tables\<close> is the heap of tables by address, \<open>registry\<close> and
  \<open>globals\<close> the addresses of the Registry and of the Globals table, and \<open>frames\<close>
  the call chain, the running frame first.
\<close>

record lua_State =
  stack :: "lua_value list"
  tables :: "nat \<rightharpoonup> ref_table"
  registry :: nat
  globals :: nat
  frames :: "frame list"

subsection \<open>The stack\<close>

text \<open>
  Modelled from the spec: the body of \<^verbatim>\<open>lua_gettop\<close>.  "gettop yields the count of
  live slots."
\<close>

definition lua_gettop :: "lua_State \<Rightarrow> int" where
  "lua_gettop L = int (length (stack L))"

text \<open>
  Modelled from the spec: the body of \<^verbatim>\<open>lua_settop\<close>.  "settop truncates (discarding
  values) or extends (filling with nil) to a requested depth."  A negative index names
  the depth from the top, as every index does (-1 is the top, so -2 pops one value); a
  depth below 0 is outside the contract and yields \<open>None\<close>.
\<close>

definition resize :: "nat \<Rightarrow> lua_value list \<Rightarrow> lua_value list" where
  "resize n s = take n s @ replicate (n - length s) LNil"

definition lua_settop :: "lua_State \<Rightarrow> int \<Rightarrow> lua_State option" where
  "lua_settop L index =
     (let depth = (if 0 \<le> index then index else lua_gettop L + index + 1)
      in if 0 \<le> depth then Some (L\<lparr>stack := resize (nat depth) (stack L)\<rparr>) else None)"

text \<open>
  Modelled from the spec: the bodies of the \<^verbatim>\<open>lua_push*\<close> family.  Each pushes one
  value on the top of the stack; \<open>push\<close> is what they share.  \<^verbatim>\<open>lua_pushboolean\<close> takes
  a C truth value and \<^verbatim>\<open>lua_pushthread\<close> pushes the running thread, whose address is
  given.
\<close>

definition push :: "lua_value \<Rightarrow> lua_State \<Rightarrow> lua_State" where
  "push v L = L\<lparr>stack := stack L @ [v]\<rparr>"

definition lua_pushnil :: "lua_State \<Rightarrow> lua_State" where
  "lua_pushnil L = push LNil L"

definition lua_pushnumber :: "lua_State \<Rightarrow> 64 word \<Rightarrow> lua_State" where
  "lua_pushnumber L n = push (LNumber n) L"

definition lua_pushlstring :: "lua_State \<Rightarrow> string \<Rightarrow> nat \<Rightarrow> lua_State" where
  "lua_pushlstring L s len = push (LString (take len s)) L"

definition lua_pushstring :: "lua_State \<Rightarrow> string \<Rightarrow> lua_State" where
  "lua_pushstring L s = push (LString s) L"

definition lua_pushboolean :: "lua_State \<Rightarrow> int \<Rightarrow> lua_State" where
  "lua_pushboolean L b = push (LBoolean (b \<noteq> 0)) L"

definition lua_pushlightuserdata :: "lua_State \<Rightarrow> nat \<Rightarrow> lua_State" where
  "lua_pushlightuserdata L p = push (LLightUserdata p) L"

definition lua_pushthread :: "nat \<Rightarrow> lua_State \<Rightarrow> lua_State" where
  "lua_pushthread self L = push (LThread self) L"

subsection \<open>The reference registry\<close>

text \<open>
  Modelled from the spec: the allocation behind \<^verbatim>\<open>luaL_ref\<close> and the release behind
  \<^verbatim>\<open>luaL_unref\<close>, on one table.  "ref returns a freshly-allocated or recycled small
  integer handle unique among that table's live entries"; "unref returns the handle to
  the free list"; "releasing an already-released or foreign handle is a contract
  violation", which is \<open>None\<close> here.  A fresh table has no entry and no free handle.
\<close>

definition empty_refs :: ref_table where
  "empty_refs = \<lparr>entries = Map.empty, free_list = [], next_ref = 0\<rparr>"

definition ref_alloc :: "ref_table \<Rightarrow> lua_value \<Rightarrow> int \<times> ref_table" where
  "ref_alloc tb v =
     (case free_list tb of
        h # hs \<Rightarrow> (h, tb\<lparr>entries := (entries tb)(h \<mapsto> v), free_list := hs\<rparr>)
      | [] \<Rightarrow> (next_ref tb,
               tb\<lparr>entries := (entries tb)(next_ref tb \<mapsto> v), next_ref := next_ref tb + 1\<rparr>))"

definition ref_release :: "ref_table \<Rightarrow> int \<Rightarrow> ref_table option" where
  "ref_release tb h =
     (case entries tb h of
        None \<Rightarrow> None
      | Some v \<Rightarrow> Some (tb\<lparr>entries := (entries tb)(h := None), free_list := h # free_list tb\<rparr>))"

text \<open>
  Modelled from the spec: how an index names a table, for \<^verbatim>\<open>luaL_ref\<close> and
  \<^verbatim>\<open>luaL_unref\<close>.  The registry and globals pseudo-indices name the two tables of the
  state; any other index is resolved with the header's \<open>abs_index\<close> and must name a
  stack slot that holds a table.
\<close>

definition index2table :: "lua_State \<Rightarrow> int \<Rightarrow> nat option" where
  "index2table L t =
     (if t = LUA_REGISTRYINDEX then Some (registry L)
      else if t = LUA_GLOBALSINDEX then Some (globals L)
      else let k = abs_index lua_gettop L t
           in if 1 \<le> k \<and> k \<le> lua_gettop L
              then (case stack L ! nat (k - 1) of LTable a \<Rightarrow> Some a | _ \<Rightarrow> None)
              else None)"

text \<open>
  Modelled from the spec: the body of \<^verbatim>\<open>luaL_newstate\<close>.  "newstate allocates a State
  with an empty Globals table and empty Registry."
\<close>

definition luaL_newstate :: lua_State where
  "luaL_newstate =
     \<lparr>stack = [], tables = [0 \<mapsto> empty_refs, 1 \<mapsto> empty_refs], registry = 0, globals = 1,
      frames = []\<rparr>"

text \<open>
  Modelled from the spec: the body of \<^verbatim>\<open>luaL_ref\<close>.  "ref(table_index) consumes the
  value at the top of the stack, installs it as an entry of the table at table_index,
  and returns a freshly-allocated or recycled small integer handle ...; a reserved
  ref-nil sentinel avoids allocation for nil values".  An empty stack and an index that
  names no table are outside the contract (\<open>None\<close>).  The spec names no condition under
  which the call fails, so no branch returns \<open>LUA_NOREF\<close>.
\<close>

definition luaL_ref :: "lua_State \<Rightarrow> int \<Rightarrow> (int \<times> lua_State) option" where
  "luaL_ref L t =
     (if stack L = [] then None
      else case index2table L t of
        None \<Rightarrow> None
      | Some a \<Rightarrow>
          (case tables L a of
             None \<Rightarrow> None
           | Some tb \<Rightarrow>
               if last (stack L) = LNil
               then Some (LUA_REFNIL, L\<lparr>stack := butlast (stack L)\<rparr>)
               else (case ref_alloc tb (last (stack L)) of
                       (h, tb') \<Rightarrow>
                         Some (h, L\<lparr>stack := butlast (stack L),
                                    tables := (tables L)(a \<mapsto> tb')\<rparr>))))"

text \<open>
  Modelled from the spec: the body of \<^verbatim>\<open>luaL_unref\<close>.  "unref(table_index, ref)
  returns the handle to the free list".
\<close>

definition luaL_unref :: "lua_State \<Rightarrow> int \<Rightarrow> int \<Rightarrow> lua_State option" where
  "luaL_unref L t r =
     (case index2table L t of
        None \<Rightarrow> None
      | Some a \<Rightarrow>
          (case tables L a of
             None \<Rightarrow> None
           | Some tb \<Rightarrow>
               (case ref_release tb r of
                  None \<Rightarrow> None
                | Some tb' \<Rightarrow> Some (L\<lparr>tables := (tables L)(a \<mapsto> tb')\<rparr>))))"

text \<open>
  The states a host can reach: from a new state, by pushing values, setting the top,
  taking references and releasing them.
\<close>

inductive reachable :: "lua_State \<Rightarrow> bool" where
  newstate: "reachable luaL_newstate"
| pushed: "reachable L \<Longrightarrow> reachable (push v L)"
| settop: "reachable L \<Longrightarrow> lua_settop L n = Some L' \<Longrightarrow> reachable L'"
| ref: "reachable L \<Longrightarrow> luaL_ref L t = Some (h, L') \<Longrightarrow> reachable L'"
| unref: "reachable L \<Longrightarrow> luaL_unref L t r = Some L' \<Longrightarrow> reachable L'"

text \<open>
  The invariant of a table of references: the handles allocated so far are
  \<open>0, ..., next_ref - 1\<close>, and each is either live or in the free list, never both.
\<close>

definition table_ok :: "ref_table \<Rightarrow> bool" where
  "table_ok tb =
     (0 \<le> next_ref tb \<and> distinct (free_list tb)
      \<and> set (free_list tb) \<inter> dom (entries tb) = {}
      \<and> set (free_list tb) \<union> dom (entries tb) = {0 ..< next_ref tb})"

definition state_ok :: "lua_State \<Rightarrow> bool" where
  "state_ok L = (\<forall>a tb. tables L a = Some tb \<longrightarrow> table_ok tb)"

subsection \<open>Protected calls\<close>

text \<open>
  Modelled from the spec: the faults a protected call reports, with the status code of
  each.  "a status is returned from RuntimeFault, OutOfMemory, SyntaxError (load-time
  only), ErrorInErrorHandler".  What running a callable does is not part of the header:
  it returns results or raises a fault with a value.
\<close>

datatype fault = RuntimeFault | OutOfMemory | SyntaxError | ErrorInErrorHandler

fun status_code :: "fault \<Rightarrow> int" where
  "status_code RuntimeFault = LUA_ERRRUN"
| "status_code OutOfMemory = LUA_ERRMEM"
| "status_code SyntaxError = LUA_ERRSYNTAX"
| "status_code ErrorInErrorHandler = LUA_ERRERR"

datatype outcome = Returns "lua_value list" | Raises fault lua_value

text \<open>
  Modelled from the spec: the body of \<^verbatim>\<open>lua_error\<close>.  "error() raises the
  top-of-stack value as the active fault ...; never returns to its caller"; an explicit
  error is a RuntimeFault in the taxonomy of the spec.
\<close>

definition lua_error :: "lua_State \<Rightarrow> outcome option" where
  "lua_error L = (if stack L = [] then None else Some (Raises RuntimeFault (last (stack L))))"

text \<open>
  Modelled from the spec: the value in a stack slot, by index; the index is resolved
  with the header's \<open>abs_index\<close>.
\<close>

definition index2value :: "lua_State \<Rightarrow> int \<Rightarrow> lua_value option" where
  "index2value L i =
     (let k = abs_index lua_gettop L i
      in if 1 \<le> k \<and> k \<le> lua_gettop L then Some (stack L ! nat (k - 1)) else None)"

text \<open>
  Modelled from the spec: the body of \<^verbatim>\<open>lua_pcall\<close>.  "The callable found nargs+1
  slots below the top is invoked with the nargs arguments above it.  On normal
  completion, the callable and its arguments are removed and up to nresults results (or
  all, if unbounded) are pushed in their place; returns Ok.  On fault, the Stack is
  unwound back to the pre-call depth, exactly one error value remains on top, and a
  status is returned ...  If errfunc names a handler, it is invoked with the raw fault
  value before unwinding completes, and its single return value becomes the propagated
  error."  A fault inside the handler is reported as ErrorInErrorHandler.

  Two things are given to the model from outside.  The behaviour of callables is the
  parameter \<open>call\<close>.  The error value the runtime leaves when the handler itself faults
  is fixed by no sentence of the spec: it is the parameter \<open>in_handler\<close>, a function of
  the value the handler raised.  Too few slots, a result count below \<open>LUA_MULTRET\<close> and
  a handler index that names no slot are outside the contract.
\<close>

definition below_call :: "lua_State \<Rightarrow> int \<Rightarrow> lua_value list" where
  "below_call L nargs = take (nat (lua_gettop L - nargs - 1)) (stack L)"

definition callee :: "lua_State \<Rightarrow> int \<Rightarrow> lua_value" where
  "callee L nargs = stack L ! nat (lua_gettop L - nargs - 1)"

definition arguments :: "lua_State \<Rightarrow> int \<Rightarrow> lua_value list" where
  "arguments L nargs = drop (nat (lua_gettop L - nargs)) (stack L)"

definition adjust_results :: "int \<Rightarrow> lua_value list \<Rightarrow> lua_value list" where
  "adjust_results nresults rs = (if nresults = LUA_MULTRET then rs else take (nat nresults) rs)"

definition single_value :: "lua_value list \<Rightarrow> lua_value" where
  "single_value rs = (case rs of [] \<Rightarrow> LNil | r # _ \<Rightarrow> r)"

definition lua_pcall ::
  "(lua_value \<Rightarrow> lua_value list \<Rightarrow> outcome) \<Rightarrow> (lua_value \<Rightarrow> lua_value) \<Rightarrow> lua_State
     \<Rightarrow> int \<Rightarrow> int \<Rightarrow> int \<Rightarrow> (int \<times> lua_State) option" where
  "lua_pcall call in_handler L nargs nresults errfunc =
     (if nargs < 0 \<or> lua_gettop L < nargs + 1 \<or> nresults < LUA_MULTRET then None
      else case call (callee L nargs) (arguments L nargs) of
        Returns rs \<Rightarrow>
          Some (LUA_OK, L\<lparr>stack := below_call L nargs @ adjust_results nresults rs\<rparr>)
      | Raises k x \<Rightarrow>
          if errfunc = 0
          then Some (status_code k, L\<lparr>stack := below_call L nargs @ [x]\<rparr>)
          else (case index2value L errfunc of
                  None \<Rightarrow> None
                | Some h \<Rightarrow>
                    (case call h [x] of
                       Returns rs \<Rightarrow>
                         Some (status_code k,
                               L\<lparr>stack := below_call L nargs @ [single_value rs]\<rparr>)
                     | Raises k' y \<Rightarrow>
                         Some (LUA_ERRERR,
                               L\<lparr>stack := below_call L nargs @ [in_handler y]\<rparr>))))"

text \<open>
  Three callables for the examples: function 1 raises the string \<open>boom\<close> with an
  explicit error, function 2 is a handler that returns a traceback, function 3 a handler
  that faults.  The example stack holds the two handlers below the callable, and the
  example runtime answers a fault in the handler with one fixed message.
\<close>

definition handled_call :: "lua_value \<Rightarrow> lua_value list \<Rightarrow> outcome" where
  "handled_call f args =
     (if f = LFunction 1 then Raises RuntimeFault (LString ''boom'')
      else if f = LFunction 2 then Returns [LString ''traceback'']
      else if f = LFunction 3 then Raises RuntimeFault (LString ''handler broke'')
      else Returns [])"

definition fixed_message :: "lua_value \<Rightarrow> lua_value" where
  "fixed_message y = LString ''error in error handling''"

definition handled_state :: lua_State where
  "handled_state =
     \<lparr>stack = [LFunction 2, LFunction 3, LFunction 1], tables = Map.empty, registry = 0,
      globals = 1, frames = []\<rparr>"

subsection \<open>Debug frames\<close>

text \<open>
  The record \<^verbatim>\<open>lua_Debug\<close> of the header, field by field.  \<open>short_src\<close> is the
  character array of \<open>LUA_IDSIZE\<close> bytes.
\<close>

record lua_Debug =
  event :: int
  name :: "string option"
  namewhat :: "string option"
  what :: "string option"
  source :: "string option"
  currentline :: int
  nups :: int
  linedefined :: int
  lastlinedefined :: int
  short_src :: id_buffer
  i_ci :: int

text \<open>
  Modelled from the spec: the body of \<^verbatim>\<open>lua_getstack\<close>.  "getstack(level, frame)
  walks outward from the currently executing frame by level (0 = current), failing
  distinctly once past the bottom of the call chain."  The private field \<open>i_ci\<close>
  records the frame found; the result is 1, or 0 on failure.
\<close>

definition lua_getstack :: "lua_State \<Rightarrow> int \<Rightarrow> lua_Debug \<Rightarrow> int \<times> lua_Debug" where
  "lua_getstack L level ar =
     (if 0 \<le> level \<and> level < int (length (frames L)) then (1, ar\<lparr>i_ci := level\<rparr>)
      else (0, ar))"

text \<open>
  Modelled from the spec: the body of \<^verbatim>\<open>lua_getinfo\<close>.  "getinfo(fields, frame)
  populates only the subset of name, namewhat, what, source, currentline, nups,
  linedefined, lastlinedefined, short-source requested by a field-selector, leaving the
  rest at documented defaults".  Neither the header nor the spec lists the default
  values: they are the nine fields of the parameter \<open>dflt\<close>.  The call first puts the
  nine fields at their defaults and then serves the letters of the selector one after
  the other.  The letter that selects a field is the one the header writes beside it:
  \<open>n\<close> for name and namewhat; \<open>S\<close> for what, source, linedefined, lastlinedefined
  and short_src; \<open>l\<close> for currentline; \<open>u\<close> for nups; a letter that selects no
  field populates none.  \<open>event\<close> and the private \<open>i_ci\<close> are not in the list of the
  spec and are not written.  A record that names no frame of the chain is outside the
  contract.
\<close>

definition reset_fields :: "lua_Debug \<Rightarrow> lua_Debug \<Rightarrow> lua_Debug" where
  "reset_fields dflt ar =
     ar\<lparr>name := name dflt, namewhat := namewhat dflt, what := what dflt,
        source := source dflt, currentline := currentline dflt, nups := nups dflt,
        linedefined := linedefined dflt, lastlinedefined := lastlinedefined dflt,
        short_src := short_src dflt\<rparr>"

definition getinfo_field :: "frame \<Rightarrow> char \<Rightarrow> lua_Debug \<Rightarrow> lua_Debug" where
  "getinfo_field fr c ar =
     (if c = CHR ''n'' then ar\<lparr>name := f_name fr, namewhat := f_namewhat fr\<rparr>
      else if c = CHR ''S'' then
        ar\<lparr>what := f_what fr, source := f_source fr, linedefined := f_linedefined fr,
           lastlinedefined := f_lastlinedefined fr, short_src := f_short_src fr\<rparr>
      else if c = CHR ''l'' then ar\<lparr>currentline := f_currentline fr\<rparr>
      else if c = CHR ''u'' then ar\<lparr>nups := f_nups fr\<rparr>
      else ar)"

definition lua_getinfo ::
  "lua_Debug \<Rightarrow> lua_State \<Rightarrow> string \<Rightarrow> lua_Debug \<Rightarrow> lua_Debug option" where
  "lua_getinfo dflt L sel ar =
     (if 0 \<le> i_ci ar \<and> i_ci ar < int (length (frames L))
      then Some (fold (getinfo_field (frames L ! nat (i_ci ar))) sel (reset_fields dflt ar))
      else None)"

text \<open>
  For the examples: a call chain of one frame, a record of defaults, and the record of
  a caller that still holds the data of an earlier call.
\<close>

definition update_frame :: frame where
  "update_frame =
     \<lparr>f_name = Some ''update'', f_namewhat = Some ''global'', f_what = Some ''Lua'',
      f_source = Some ''@init.lua'', f_currentline = 12, f_nups = 2, f_linedefined = 10,
      f_lastlinedefined = 40, f_short_src = buffer_of ''init.lua''\<rparr>"

definition running_state :: lua_State where
  "running_state = luaL_newstate\<lparr>frames := [update_frame]\<rparr>"

definition blank_Debug :: lua_Debug where
  "blank_Debug =
     \<lparr>event = 0, name = None, namewhat = None, what = None, source = None,
      currentline = - 1, nups = 0, linedefined = - 1, lastlinedefined = - 1,
      short_src = buffer_of [], i_ci = 0\<rparr>"

definition stale_Debug :: lua_Debug where
  "stale_Debug =
     \<lparr>event = 3, name = Some ''draw'', namewhat = Some ''field'', what = Some ''junk'',
      source = Some ''@old.lua'', currentline = 99, nups = 7, linedefined = 90,
      lastlinedefined = 120, short_src = buffer_of ''old.lua'', i_ci = 0\<rparr>"

lemmas type_tag_defs =
  LUA_TNONE_def LUA_TNIL_def LUA_TBOOLEAN_def LUA_TLIGHTUSERDATA_def LUA_TNUMBER_def
  LUA_TSTRING_def LUA_TTABLE_def LUA_TFUNCTION_def LUA_TUSERDATA_def LUA_TTHREAD_def

lemmas status_defs =
  LUA_OK_def LUA_YIELD_def LUA_ERRRUN_def LUA_ERRSYNTAX_def LUA_ERRMEM_def
  LUA_ERRERR_def LUA_ERRFILE_def

lemmas pseudo_index_defs =
  LUA_REGISTRYINDEX_def LUA_ENVIRONINDEX_def LUA_GLOBALSINDEX_def

section \<open>Where the integer model is the machine's\<close>

text \<open>
  The subtraction of \<open>lua_upvalueindex\<close> is exact for an upvalue number up to
  2147473646 and wraps around above it.  The additions of \<open>abs_index\<close> stay within a
  32-bit \<^verbatim>\<open>int\<close> for any index other than 0 over a stack of non-negative depth.
\<close>

lemma constants_c_int:
  "c_int LUA_REGISTRYINDEX" "c_int LUA_ENVIRONINDEX" "c_int LUA_GLOBALSINDEX"
  "c_int LUA_ERRFILE" "c_int LUA_NOREF" "c_int LUA_REFNIL" "c_int LUA_TNONE"
  by (simp_all add: c_int_def pseudo_index_defs status_defs LUA_NOREF_def LUA_REFNIL_def
      LUA_TNONE_def)

lemma wrap_int_c_int: "c_int (wrap_int x)"
proof -
  have "0 \<le> (x + 2147483648) mod 4294967296" "(x + 2147483648) mod 4294967296 < 4294967296"
    by simp_all
  then show ?thesis
    unfolding c_int_def wrap_int_def by linarith
qed

lemma wrap_int_exact: "c_int x \<Longrightarrow> wrap_int x = x"
  by (simp add: c_int_def wrap_int_def)

lemma lua_upvalueindex_c_int: "c_int (lua_upvalueindex i)"
  by (simp add: lua_upvalueindex_def wrap_int_c_int)

lemma lua_upvalueindex_exact:
  assumes "c_int i" and "i \<le> 2147473646"
  shows "lua_upvalueindex i = LUA_GLOBALSINDEX - i"
proof -
  from assms have "c_int (LUA_GLOBALSINDEX - i)"
    by (simp add: c_int_def LUA_GLOBALSINDEX_def)
  then show ?thesis
    by (simp add: lua_upvalueindex_def wrap_int_exact)
qed

lemma lua_upvalueindex_wraps:
  assumes "c_int i" and "2147473646 < i"
  shows "lua_upvalueindex i = LUA_GLOBALSINDEX - i + 4294967296" and "0 < lua_upvalueindex i"
proof -
  from assms have "0 \<le> LUA_GLOBALSINDEX - i + 6442450944"
    "LUA_GLOBALSINDEX - i + 6442450944 < 4294967296"
    by (simp_all add: c_int_def LUA_GLOBALSINDEX_def)
  then have "(LUA_GLOBALSINDEX - i + 6442450944) mod 4294967296
      = LUA_GLOBALSINDEX - i + 6442450944"
    by simp
  moreover have "(LUA_GLOBALSINDEX - i + 2147483648) mod 4294967296
      = (LUA_GLOBALSINDEX - i + 6442450944) mod 4294967296"
    using mod_add_self2 [of "LUA_GLOBALSINDEX - i + 2147483648" 4294967296]
    by (simp add: algebra_simps)
  ultimately show "lua_upvalueindex i = LUA_GLOBALSINDEX - i + 4294967296"
    by (simp add: lua_upvalueindex_def wrap_int_def)
  with assms show "0 < lua_upvalueindex i"
    by (simp add: c_int_def LUA_GLOBALSINDEX_def)
qed

lemma abs_index_c_int:
  assumes "c_int (gettop L)" and "0 \<le> gettop L" and "c_int i" and "i \<noteq> 0"
  shows "c_int (abs_index gettop L i)"
    and "\<not> (0 < i \<or> i \<le> LUA_REGISTRYINDEX) \<Longrightarrow> c_int (gettop L + i)"
  using assms by (auto simp add: c_int_def abs_index_def LUA_REGISTRYINDEX_def)

section \<open>Status codes and type tags\<close>

text \<open>
  Claim C1.  The status codes are the fixed integers ok = 0, yield = 1, runtime fault = 2,
  syntax error = 3, memory fault = 4, error in the handler = 5 and file error = 6, the
  last being the error-in-handler code plus one, and no two of them are equal.
\<close>

theorem status_codes_fixed:
  "[LUA_OK, LUA_YIELD, LUA_ERRRUN, LUA_ERRSYNTAX, LUA_ERRMEM, LUA_ERRERR, LUA_ERRFILE]
     = [0, 1, 2, 3, 4, 5, 6]
   \<and> LUA_ERRFILE = LUA_ERRERR + 1
   \<and> distinct [LUA_OK, LUA_YIELD, LUA_ERRRUN, LUA_ERRSYNTAX, LUA_ERRMEM, LUA_ERRERR,
       LUA_ERRFILE]"
  by (simp add: status_defs)

text \<open>
  Claim C2.  The type tags are fixed and pairwise distinct: none is -1, and nil, boolean,
  light userdata, number, string, table, function, userdata, thread are 0, 1, ..., 8 in
  this order.
\<close>

theorem type_tags_fixed:
  "LUA_TNONE = -1
   \<and> [LUA_TNIL, LUA_TBOOLEAN, LUA_TLIGHTUSERDATA, LUA_TNUMBER, LUA_TSTRING, LUA_TTABLE,
       LUA_TFUNCTION, LUA_TUSERDATA, LUA_TTHREAD] = [0, 1, 2, 3, 4, 5, 6, 7, 8]
   \<and> distinct [LUA_TNONE, LUA_TNIL, LUA_TBOOLEAN, LUA_TLIGHTUSERDATA, LUA_TNUMBER,
       LUA_TSTRING, LUA_TTABLE, LUA_TFUNCTION, LUA_TUSERDATA, LUA_TTHREAD]"
  by (simp add: type_tag_defs)

section \<open>Index resolution\<close>

text \<open>
  Claim C3, as amended.  Every pseudo-index, that is the registry, environment and
  globals index and \<open>lua_upvalueindex i\<close> for every upvalue number \<open>i\<close> from 1 to
  2147473646, is a negative number at or below \<open>LUA_REGISTRYINDEX\<close>, and \<open>abs_index\<close>
  returns it unchanged in every state, whatever depth \<open>gettop\<close> reports there.
\<close>

theorem pseudo_index_fixed:
  assumes "p \<in> {LUA_REGISTRYINDEX, LUA_ENVIRONINDEX, LUA_GLOBALSINDEX}
           \<or> (\<exists>i. 1 \<le> i \<and> i \<le> 2147473646 \<and> p = lua_upvalueindex i)"
  shows "p < 0 \<and> p \<le> LUA_REGISTRYINDEX \<and> abs_index gettop L p = p"
proof -
  have "lua_upvalueindex i \<le> LUA_REGISTRYINDEX" if "1 \<le> i" and "i \<le> 2147473646" for i
  proof -
    from that have "c_int i"
      by (simp add: c_int_def)
    then have "lua_upvalueindex i = LUA_GLOBALSINDEX - i"
      using that(2) by (rule lua_upvalueindex_exact)
    with that(1) show ?thesis
      by (simp add: pseudo_index_defs)
  qed
  with assms have "p \<le> LUA_REGISTRYINDEX"
    by (auto simp add: pseudo_index_defs)
  moreover have "LUA_REGISTRYINDEX < 0"
    by (simp add: LUA_REGISTRYINDEX_def)
  ultimately show ?thesis
    by (simp add: abs_index_def)
qed

theorem pseudo_index_fixed_witness:
  "(1 :: int) \<le> 255 \<and> (255 :: int) \<le> 2147473646
   \<and> lua_upvalueindex 255 = - 10257
   \<and> lua_upvalueindex 255 \<le> LUA_REGISTRYINDEX
   \<and> abs_index (\<lambda>s. int (length s)) [True, False, True] (lua_upvalueindex 255)
       = lua_upvalueindex 255"
proof -
  have h: "lua_upvalueindex 255 \<in> {LUA_REGISTRYINDEX, LUA_ENVIRONINDEX, LUA_GLOBALSINDEX}
           \<or> (\<exists>i. 1 \<le> i \<and> i \<le> 2147473646 \<and> lua_upvalueindex 255 = lua_upvalueindex i)"
    by (intro disjI2 exI [of _ 255]) simp
  show ?thesis
    using pseudo_index_fixed [OF h, of "\<lambda>s. int (length s)" "[True, False, True]"]
    by (simp add: lua_upvalueindex_def wrap_int_def LUA_GLOBALSINDEX_def)
qed

text \<open>
  The claim as the specification states it, for every \<open>i \<ge> 1\<close>, fails at the first
  upvalue number whose difference leaves the range of \<^verbatim>\<open>int\<close>: the macro then yields
  the largest \<^verbatim>\<open>int\<close>, which is positive, above \<open>LUA_REGISTRYINDEX\<close>, and a stack
  position for \<open>abs_index\<close>.
\<close>

theorem upvalueindex_overflow_counterexample:
  "(1 :: int) \<le> 2147473647 \<and> c_int 2147473647
   \<and> lua_upvalueindex 2147473647 = 2147483647
   \<and> \<not> lua_upvalueindex 2147473647 \<le> LUA_REGISTRYINDEX
   \<and> \<not> lua_upvalueindex 2147473647 < 0"
  by (simp add: c_int_def lua_upvalueindex_def wrap_int_def pseudo_index_defs)

text \<open>
  Claim C4.  A positive index is returned as it is (it counts from the bottom, from 1).
  A negative stack index \<open>i\<close>, one with \<open>- gettop L \<le> i \<le> -1\<close> above
  \<open>LUA_REGISTRYINDEX\<close>, resolves to \<open>gettop L + i + 1\<close>, a position between 1 and
  \<open>gettop L\<close>.  Index -1 is the top.
\<close>

theorem abs_index_addressing:
  "(0 < i \<longrightarrow> abs_index gettop L i = i)
   \<and> (- gettop L \<le> i \<and> i \<le> - 1 \<and> LUA_REGISTRYINDEX < i \<longrightarrow>
        abs_index gettop L i = gettop L + i + 1
        \<and> 1 \<le> abs_index gettop L i \<and> abs_index gettop L i \<le> gettop L)
   \<and> abs_index gettop L (- 1) = gettop L"
  by (simp add: abs_index_def LUA_REGISTRYINDEX_def)

theorem abs_index_addressing_witness:
  "(0 < (2::int) \<and> abs_index (\<lambda>s. int (length s)) [True, False, True] 2 = 2)
   \<and> (- int (length [True, False, True]) \<le> - 3 \<and> (- 3 :: int) \<le> - 1
        \<and> LUA_REGISTRYINDEX < - 3
        \<and> abs_index (\<lambda>s. int (length s)) [True, False, True] (- 3) = 1)
   \<and> abs_index (\<lambda>s. int (length s)) [True, False, True] (- 1) = 3"
  using abs_index_addressing [of 2 "\<lambda>s. int (length s)" "[True, False, True]"]
    abs_index_addressing [of "- 3" "\<lambda>s. int (length s)" "[True, False, True]"]
  by (simp add: LUA_REGISTRYINDEX_def)

text \<open>
  Claim C5.  An index at or below \<open>LUA_REGISTRYINDEX = -10000\<close> is never resolved to a
  stack position: \<open>abs_index\<close> tests the cutoff before it adds the depth, so the result
  is the index itself, which is no position between 1 and \<open>gettop L\<close>, also when
  the stack is deeper than 9999.
\<close>

theorem pseudo_index_no_alias:
  assumes "i \<le> LUA_REGISTRYINDEX"
  shows "LUA_REGISTRYINDEX = - 10000
         \<and> abs_index gettop L i = i
         \<and> \<not> (1 \<le> abs_index gettop L i \<and> abs_index gettop L i \<le> gettop L)"
  using assms by (simp add: abs_index_def LUA_REGISTRYINDEX_def)

theorem pseudo_index_no_alias_witness:
  "(- 10000 :: int) \<le> LUA_REGISTRYINDEX
   \<and> (1 :: int) \<le> 20000 + (- 10000) + 1 \<and> (20000 :: int) + (- 10000) + 1 \<le> 20000
   \<and> abs_index (\<lambda>n. n) (20000 :: int) (- 10000) = - 10000
   \<and> \<not> (1 \<le> abs_index (\<lambda>n. n) (20000 :: int) (- 10000)
         \<and> abs_index (\<lambda>n. n) (20000 :: int) (- 10000) \<le> 20000)"
proof -
  have h: "(- 10000 :: int) \<le> LUA_REGISTRYINDEX"
    by (simp add: LUA_REGISTRYINDEX_def)
  show ?thesis
    using pseudo_index_no_alias [OF h, of "\<lambda>n. n" 20000]
    by (simp add: LUA_REGISTRYINDEX_def)
qed

section \<open>Push and pop\<close>

lemma resize_append_same: "resize (length s) (s @ t) = s"
  by (simp add: resize_def)

lemma lua_gettop_push: "lua_gettop (push v L) = lua_gettop L + 1"
  by (simp add: lua_gettop_def push_def)

lemma lua_gettop_nonneg: "0 \<le> lua_gettop L"
  by (simp add: lua_gettop_def)

lemma lua_settop_gettop:
  "lua_settop L n = Some L' \<Longrightarrow> lua_gettop L' = (if 0 \<le> n then n else lua_gettop L + n + 1)"
  by (auto simp add: lua_settop_def lua_gettop_def resize_def Let_def split: if_splits)

lemma pop_after_push: "lua_settop (push v L) (- 2) = Some L"
  by (simp add: lua_settop_def lua_gettop_def push_def resize_def)

text \<open>
  Claim C8.  For every state and every value \<open>v\<close>: with \<open>t\<close> the depth before the
  push, pushing \<open>v\<close> and then setting the top to \<open>t\<close> succeeds and leaves a state of
  depth \<open>t\<close>; it is the state before the push.  This holds for each function of the
  push family, and for popping one value with index -2.  Setting the top to \<open>t\<close>
  gives depth \<open>t\<close> from any state \<open>L1\<close> at all, so also after a push that consumes
  values first, as a closure's upvalues.
\<close>

theorem push_settop_roundtrip:
  "lua_settop (push v L) (lua_gettop L) = Some L
   \<and> map_option lua_gettop (lua_settop (push v L) (lua_gettop L)) = Some (lua_gettop L)
   \<and> lua_settop (lua_pushnil L) (lua_gettop L) = Some L
   \<and> lua_settop (lua_pushnumber L n) (lua_gettop L) = Some L
   \<and> lua_settop (lua_pushlstring L s len) (lua_gettop L) = Some L
   \<and> lua_settop (lua_pushstring L s) (lua_gettop L) = Some L
   \<and> lua_settop (lua_pushboolean L b) (lua_gettop L) = Some L
   \<and> lua_settop (lua_pushlightuserdata L p) (lua_gettop L) = Some L
   \<and> lua_settop (lua_pushthread self L) (lua_gettop L) = Some L
   \<and> lua_settop (push v L) (- 2) = Some L
   \<and> map_option lua_gettop (lua_settop L1 (lua_gettop L)) = Some (lua_gettop L)"
proof -
  have "lua_settop (push w L) (lua_gettop L) = Some L" for w
    by (simp add: lua_settop_def lua_gettop_def push_def resize_def)
  moreover have "lua_settop (push v L) (- 2) = Some L"
    by (rule pop_after_push)
  moreover have "map_option lua_gettop (lua_settop L1 (lua_gettop L)) = Some (lua_gettop L)"
    by (simp add: lua_settop_def lua_gettop_def resize_def)
  ultimately show ?thesis
    by (simp add: lua_pushnil_def lua_pushnumber_def lua_pushlstring_def lua_pushstring_def
        lua_pushboolean_def lua_pushlightuserdata_def lua_pushthread_def)
qed

section \<open>Reference handles\<close>

lemma table_ok_iff:
  "table_ok tb \<longleftrightarrow>
     0 \<le> next_ref tb \<and> distinct (free_list tb)
     \<and> (\<forall>h. h \<in> set (free_list tb) \<longrightarrow> entries tb h = None)
     \<and> (\<forall>h. (h \<in> set (free_list tb) \<or> entries tb h \<noteq> None) = (0 \<le> h \<and> h < next_ref tb))"
  unfolding table_ok_def set_eq_iff disjoint_iff dom_def by auto

lemma table_ok_empty: "table_ok empty_refs"
  by (simp add: table_ok_def empty_refs_def)

lemma ref_alloc_entries:
  "ref_alloc tb v = (h, tb') \<Longrightarrow> entries tb' = (entries tb)(h \<mapsto> v)"
  by (auto simp add: ref_alloc_def split: list.splits)

lemma ref_alloc_fresh:
  assumes "table_ok tb" and "ref_alloc tb v = (h, tb')"
  shows "entries tb h = None" and "0 \<le> h" and "h < next_ref tb'"
proof -
  show "entries tb h = None"
  proof (cases "free_list tb")
    case Nil
    with assms have "h = next_ref tb"
      by (simp add: ref_alloc_def)
    then show ?thesis
      using assms(1) unfolding table_ok_iff by (metis less_irrefl)
  next
    case (Cons a as)
    with assms have "h \<in> set (free_list tb)"
      by (simp add: ref_alloc_def)
    then show ?thesis
      using assms(1) unfolding table_ok_iff by blast
  qed
  show "0 \<le> h" "h < next_ref tb'"
    using assms unfolding table_ok_iff
    by (auto simp add: ref_alloc_def split: list.splits)
qed

lemma table_ok_alloc:
  assumes "table_ok tb" and "ref_alloc tb v = (h, tb')"
  shows "table_ok tb'"
proof (cases "free_list tb")
  case Nil
  with assms(2) have tb': "tb' = tb\<lparr>entries := (entries tb)(next_ref tb \<mapsto> v),
      next_ref := next_ref tb + 1\<rparr>"
    by (auto simp add: ref_alloc_def)
  from assms(1) Nil show ?thesis
    unfolding table_ok_iff tb' by (simp, safe) force+
next
  case (Cons a as)
  with assms(2) have tb': "tb' = tb\<lparr>entries := (entries tb)(a \<mapsto> v), free_list := as\<rparr>"
    by (auto simp add: ref_alloc_def)
  from assms(1) Cons show ?thesis
    unfolding table_ok_iff tb' by (simp, safe) force+
qed

lemma table_ok_release:
  assumes "table_ok tb" and "ref_release tb h = Some tb'"
  shows "table_ok tb'"
proof -
  from assms(2) obtain v where live: "entries tb h = Some v"
    and tb': "tb' = tb\<lparr>entries := (entries tb)(h := None), free_list := h # free_list tb\<rparr>"
    by (auto simp add: ref_release_def split: option.splits)
  from assms(1) live show ?thesis
    unfolding table_ok_iff tb' by (simp, safe) force+
qed

text \<open>A released handle is the next one issued: the free list recycles.\<close>

lemma released_handle_recycled:
  assumes "ref_release tb h = Some tb'"
  shows "fst (ref_alloc tb' v) = h"
  using assms by (auto simp add: ref_release_def ref_alloc_def split: option.splits)

lemma state_ok_newstate: "state_ok luaL_newstate"
  by (simp add: state_ok_def luaL_newstate_def table_ok_empty)

lemma state_ok_push: "state_ok L \<Longrightarrow> state_ok (push v L)"
  by (simp add: state_ok_def push_def)

lemma state_ok_settop: "state_ok L \<Longrightarrow> lua_settop L n = Some L' \<Longrightarrow> state_ok L'"
  by (auto simp add: state_ok_def lua_settop_def Let_def split: if_splits)

lemma luaL_ref_cases:
  assumes "luaL_ref L t = Some (h, L')"
  obtains a tb where "stack L \<noteq> []" "index2table L t = Some a" "tables L a = Some tb"
    "last (stack L) = LNil" "h = LUA_REFNIL" "L' = L\<lparr>stack := butlast (stack L)\<rparr>"
  | a tb tb' where "stack L \<noteq> []" "index2table L t = Some a" "tables L a = Some tb"
    "last (stack L) \<noteq> LNil" "ref_alloc tb (last (stack L)) = (h, tb')"
    "L' = L\<lparr>stack := butlast (stack L), tables := (tables L)(a \<mapsto> tb')\<rparr>"
  using assms
  by (auto simp add: luaL_ref_def split: if_splits option.splits prod.splits)

lemma luaL_ref_defined:
  assumes "stack L \<noteq> []" and "index2table L t = Some a" and "tables L a = Some tb"
  shows "\<exists>h L'. luaL_ref L t = Some (h, L')"
  using assms by (simp add: luaL_ref_def split: prod.splits)

lemma state_ok_ref:
  assumes "state_ok L" and "luaL_ref L t = Some (h, L')"
  shows "state_ok L'"
  using assms(2)
proof (cases rule: luaL_ref_cases)
  case (1 a tb)
  with assms(1) show ?thesis
    by (simp add: state_ok_def)
next
  case (2 a tb tb')
  from assms(1) 2(3) have "table_ok tb"
    by (simp add: state_ok_def)
  then have "table_ok tb'"
    using 2(5) by (rule table_ok_alloc)
  with assms(1) 2(6) show ?thesis
    by (simp add: state_ok_def)
qed

lemma state_ok_unref:
  assumes "state_ok L" and "luaL_unref L t r = Some L'"
  shows "state_ok L'"
proof -
  from assms(2) obtain a tb tb' where "tables L a = Some tb" "ref_release tb r = Some tb'"
    and L': "L' = L\<lparr>tables := (tables L)(a \<mapsto> tb')\<rparr>"
    by (auto simp add: luaL_unref_def split: option.splits)
  with assms(1) have "table_ok tb'"
    by (auto simp add: state_ok_def intro: table_ok_release)
  with assms(1) L' show ?thesis
    by (simp add: state_ok_def)
qed

lemma reachable_state_ok: "reachable L \<Longrightarrow> state_ok L"
  by (induction rule: reachable.induct)
    (auto intro: state_ok_newstate state_ok_push state_ok_settop state_ok_ref state_ok_unref)

text \<open>
  Claim C6.  \<open>LUA_REFNIL\<close> and \<open>LUA_NOREF\<close> are two different negative integers.  In
  every state a host can reach, \<open>luaL_ref\<close> answers a nil value with \<open>LUA_REFNIL\<close> and
  allocates nothing; for any other value the handle it issues is not negative and below
  the count of handles allocated in the table, was not live before the call, names the
  value after it, and so equals neither \<open>LUA_REFNIL\<close> nor \<open>LUA_NOREF\<close>.
\<close>

theorem ref_handle_not_sentinel:
  assumes "reachable L" and "luaL_ref L t = Some (h, L')"
  shows "LUA_REFNIL \<noteq> LUA_NOREF \<and> LUA_REFNIL < 0 \<and> LUA_NOREF < 0
    \<and> (last (stack L) = LNil \<longrightarrow> h = LUA_REFNIL \<and> tables L' = tables L)
    \<and> (last (stack L) \<noteq> LNil \<longrightarrow>
         0 \<le> h \<and> h \<noteq> LUA_REFNIL \<and> h \<noteq> LUA_NOREF
         \<and> (\<exists>a tb tb'. index2table L t = Some a \<and> tables L a = Some tb
               \<and> tables L' a = Some tb' \<and> entries tb h = None
               \<and> entries tb' h = Some (last (stack L)) \<and> h < next_ref tb'))"
  using assms(2)
proof (cases rule: luaL_ref_cases)
  case (1 a tb)
  then show ?thesis
    by (simp add: LUA_REFNIL_def LUA_NOREF_def)
next
  case (2 a tb tb')
  from assms(1) have "state_ok L"
    by (rule reachable_state_ok)
  with 2(3) have ok: "table_ok tb"
    by (simp add: state_ok_def)
  note fresh = ref_alloc_fresh [OF ok 2(5)] and ent = ref_alloc_entries [OF 2(5)]
  have "tables L' a = Some tb'"
    using 2(6) by simp
  moreover have "entries tb' h = Some (last (stack L))"
    using ent by simp
  ultimately have "\<exists>a tb tb'. index2table L t = Some a \<and> tables L a = Some tb
               \<and> tables L' a = Some tb' \<and> entries tb h = None
               \<and> entries tb' h = Some (last (stack L)) \<and> h < next_ref tb'"
    using 2(2,3) fresh by blast
  with fresh(2) 2(4) show ?thesis
    by (simp add: LUA_REFNIL_def LUA_NOREF_def)
qed

theorem ref_handle_not_sentinel_witness:
  "reachable (push (LString ''held'') luaL_newstate)
   \<and> map_option fst (luaL_ref (push (LString ''held'') luaL_newstate) LUA_REGISTRYINDEX)
       = Some 0
   \<and> last (stack (push (LString ''held'') luaL_newstate)) \<noteq> LNil
   \<and> (0 :: int) \<noteq> LUA_REFNIL \<and> (0 :: int) \<noteq> LUA_NOREF"
proof -
  let ?L = "push (LString ''held'') luaL_newstate"
  have r: "reachable ?L"
    by (intro reachable.pushed reachable.newstate)
  obtain L' where ref: "luaL_ref ?L LUA_REGISTRYINDEX = Some (0, L')"
    by (simp add: luaL_ref_def index2table_def luaL_newstate_def push_def ref_alloc_def
        empty_refs_def)
  have v: "last (stack ?L) \<noteq> LNil"
    by (simp add: push_def)
  from ref_handle_not_sentinel [OF r ref] r ref v show ?thesis
    by simp
qed

section \<open>Faults under a protected call\<close>

lemma status_code_range:
  "status_code k \<in> {LUA_ERRRUN, LUA_ERRMEM, LUA_ERRSYNTAX, LUA_ERRERR}"
  by (cases k) simp_all

lemma length_below_call:
  "0 \<le> nargs \<Longrightarrow> nargs + 1 \<le> lua_gettop L \<Longrightarrow>
   int (length (below_call L nargs)) = lua_gettop L - nargs - 1"
  by (simp add: below_call_def lua_gettop_def)

text \<open>
  The stack before the call: the slots below the callable, the callable, and its
  \<open>nargs\<close> arguments.
\<close>

lemma pcall_parts:
  assumes "0 \<le> nargs" and "nargs + 1 \<le> lua_gettop L"
  shows "stack L = below_call L nargs @ callee L nargs # arguments L nargs"
    and "int (length (arguments L nargs)) = nargs"
proof -
  let ?m = "nat (lua_gettop L - nargs - 1)"
  from assms have m: "?m < length (stack L)"
    by (simp add: lua_gettop_def)
  from assms have "nat (lua_gettop L - nargs) = Suc ?m"
    by (simp add: lua_gettop_def)
  with id_take_nth_drop [OF m]
  show "stack L = below_call L nargs @ callee L nargs # arguments L nargs"
    by (simp add: below_call_def callee_def arguments_def)
  from assms show "int (length (arguments L nargs)) = nargs"
    by (simp add: arguments_def lua_gettop_def)
qed

text \<open>An explicit error raises the value on the top of the stack as a RuntimeFault.\<close>

lemma lua_error_raises: "lua_error (push x L) = Some (Raises RuntimeFault x)"
  by (simp add: lua_error_def push_def)

lemma pcall_ok:
  assumes "0 \<le> nargs" and "nargs + 1 \<le> lua_gettop L" and "LUA_MULTRET \<le> nresults"
    and "call (callee L nargs) (arguments L nargs) = Returns rs"
  shows "lua_pcall call in_handler L nargs nresults errfunc
           = Some (LUA_OK, L\<lparr>stack := below_call L nargs @ adjust_results nresults rs\<rparr>)"
  using assms by (simp add: lua_pcall_def)

text \<open>
  What a host sees of a stack unwound to the slots below the callable with one value
  \<open>e\<close> on top: the depth, the value at index -1, and the slots below, each as before.
\<close>

lemma unwound_stack:
  assumes "0 \<le> nargs" and "nargs + 1 \<le> lua_gettop L"
    and "L' = L\<lparr>stack := below_call L nargs @ [e]\<rparr>"
  shows "lua_gettop L' = lua_gettop L - nargs"
    and "index2value L' (- 1) = Some e"
    and "1 \<le> i \<Longrightarrow> i < lua_gettop L - nargs \<Longrightarrow> index2value L' i = index2value L i"
proof -
  define m where "m = nat (lua_gettop L - nargs - 1)"
  from assms(1,2) have mtop: "int m = lua_gettop L - nargs - 1"
    by (simp add: m_def)
  have len: "length (below_call L nargs) = m"
    using length_below_call [OF assms(1,2)] mtop by simp
  from assms(3) have st: "stack L' = below_call L nargs @ [e]"
    by simp
  with len have top: "lua_gettop L' = int m + 1"
    by (simp add: lua_gettop_def)
  from top mtop show "lua_gettop L' = lua_gettop L - nargs"
    by simp
  have "abs_index lua_gettop L' (- 1) = int m + 1"
    by (simp add: abs_index_def LUA_REGISTRYINDEX_def top)
  moreover have "stack L' ! m = e"
    using len st by (metis nth_append_length)
  ultimately show "index2value L' (- 1) = Some e"
    by (simp add: index2value_def top)
  show "index2value L' i = index2value L i" if "1 \<le> i" and "i < lua_gettop L - nargs"
  proof -
    from that mtop have i: "nat (i - 1) < m"
      by simp
    with len st have "stack L' ! nat (i - 1) = below_call L nargs ! nat (i - 1)"
      by (simp add: nth_append)
    also from i have "\<dots> = stack L ! nat (i - 1)"
      by (simp add: below_call_def m_def)
    finally have "stack L' ! nat (i - 1) = stack L ! nat (i - 1)" .
    moreover from that have "abs_index lua_gettop L' i = i" "abs_index lua_gettop L i = i"
      by (simp_all add: abs_index_def)
    moreover from that mtop top assms(1) have "i \<le> lua_gettop L'" "i \<le> lua_gettop L"
      by simp_all
    ultimately show ?thesis
      using that(1) by (simp add: index2value_def)
  qed
qed

text \<open>
  Claim C7, as amended.  A protected call within its contract whose callee faults
  with value \<open>x\<close> returns.  The stack is then unwound: its depth is that of the slots
  below the callable plus one, those slots hold what they held, and exactly one error
  value \<open>e\<close> is on top; the status is one of the runtime, memory, syntax and
  error-in-handler codes.  With no handler (\<open>errfunc = 0\<close>), \<open>e\<close> is \<open>x\<close> and the status
  is that of the fault; when the callee raised the fault with \<open>lua_error\<close> on its own
  state \<open>Lc\<close>, \<open>e\<close> is the value on top of that state and the status is the runtime
  code.  With a handler that returns a single value, \<open>e\<close> is that value, under the
  status of the fault.  With a handler that faults, the status is the error-in-handler
  code.
\<close>

theorem pcall_fault:
  assumes "0 \<le> nargs" and "nargs + 1 \<le> lua_gettop L" and "LUA_MULTRET \<le> nresults"
    and "errfunc \<noteq> 0 \<longrightarrow> index2value L errfunc = Some h"
    and "call (callee L nargs) (arguments L nargs) = Raises k x"
  shows "\<exists>st e L'. lua_pcall call in_handler L nargs nresults errfunc = Some (st, L')
      \<and> lua_gettop L' = lua_gettop L - nargs
      \<and> index2value L' (- 1) = Some e
      \<and> (\<forall>i. 1 \<le> i \<and> i < lua_gettop L - nargs \<longrightarrow> index2value L' i = index2value L i)
      \<and> st \<in> {LUA_ERRRUN, LUA_ERRMEM, LUA_ERRSYNTAX, LUA_ERRERR}
      \<and> (errfunc = 0 \<longrightarrow> e = x \<and> st = status_code k)
      \<and> (errfunc = 0 \<and> lua_error Lc = Some (Raises k x) \<longrightarrow>
            e = last (stack Lc) \<and> st = LUA_ERRRUN)
      \<and> (errfunc \<noteq> 0 \<longrightarrow>
            (\<forall>r. call h [x] = Returns [r] \<longrightarrow> e = r \<and> st = status_code k)
            \<and> (\<forall>k' y. call h [x] = Raises k' y \<longrightarrow> st = LUA_ERRERR))"
proof -
  have explicit: "x = last (stack Lc) \<and> status_code k = LUA_ERRRUN"
    if "lua_error Lc = Some (Raises k x)"
    using that by (auto simp add: lua_error_def split: if_splits)
  have seen: "lua_gettop L' = lua_gettop L - nargs \<and> index2value L' (- 1) = Some e
      \<and> (\<forall>i. 1 \<le> i \<and> i < lua_gettop L - nargs \<longrightarrow> index2value L' i = index2value L i)"
    if "L' = L\<lparr>stack := below_call L nargs @ [e]\<rparr>" for L' e
    using unwound_stack [OF assms(1,2) that] by blast
  show ?thesis
  proof (cases "errfunc = 0")
    case True
    with assms have "lua_pcall call in_handler L nargs nresults errfunc
        = Some (status_code k, L\<lparr>stack := below_call L nargs @ [x]\<rparr>)"
      by (simp add: lua_pcall_def)
    with True seen [OF refl, of x] status_code_range [of k] explicit show ?thesis
      by auto
  next
    case False
    with assms(4) have h: "index2value L errfunc = Some h"
      by simp
    show ?thesis
    proof (cases "call h [x]")
      case (Returns rs)
      with assms False h have "lua_pcall call in_handler L nargs nresults errfunc
          = Some (status_code k, L\<lparr>stack := below_call L nargs @ [single_value rs]\<rparr>)"
        by (simp add: lua_pcall_def)
      with False Returns seen [OF refl, of "single_value rs"] status_code_range [of k]
      show ?thesis
        by (auto simp add: single_value_def)
    next
      case (Raises k' y)
      with assms False h have "lua_pcall call in_handler L nargs nresults errfunc
          = Some (LUA_ERRERR, L\<lparr>stack := below_call L nargs @ [in_handler y]\<rparr>)"
        by (simp add: lua_pcall_def)
      with False Raises seen [OF refl, of "in_handler y"] show ?thesis
        by auto
    qed
  qed
qed

theorem pcall_fault_witness:
  "(0 :: int) + 1 \<le> lua_gettop handled_state
   \<and> index2value handled_state 1 = Some (LFunction 2)
   \<and> handled_call (callee handled_state 0) (arguments handled_state 0)
       = Raises RuntimeFault (LString ''boom'')
   \<and> lua_error (push (LString ''boom'') handled_state)
       = Some (Raises RuntimeFault (LString ''boom''))
   \<and> handled_call (LFunction 2) [LString ''boom''] = Returns [LString ''traceback'']
   \<and> map_option fst (lua_pcall handled_call fixed_message handled_state 0 0 0)
       = Some LUA_ERRRUN
   \<and> Option.bind (lua_pcall handled_call fixed_message handled_state 0 0 0)
        (\<lambda>(st, L'). index2value L' (- 1)) = Some (LString ''boom'')
   \<and> map_option fst (lua_pcall handled_call fixed_message handled_state 0 0 1)
       = Some LUA_ERRRUN
   \<and> Option.bind (lua_pcall handled_call fixed_message handled_state 0 0 1)
        (\<lambda>(st, L'). index2value L' (- 1)) = Some (LString ''traceback'')
   \<and> index2value handled_state 2 = Some (LFunction 3)
   \<and> handled_call (LFunction 3) [LString ''boom'']
       = Raises RuntimeFault (LString ''handler broke'')
   \<and> map_option fst (lua_pcall handled_call fixed_message handled_state 0 0 2)
       = Some LUA_ERRERR"
proof -
  have n: "(0 :: int) \<le> 0" "(0 :: int) + 1 \<le> lua_gettop handled_state"
    "LUA_MULTRET \<le> 0"
    by (simp_all add: lua_gettop_def handled_state_def LUA_MULTRET_def)
  have h: "index2value handled_state 1 = Some (LFunction 2)"
    by (simp add: index2value_def abs_index_def lua_gettop_def handled_state_def)
  have f: "handled_call (callee handled_state 0) (arguments handled_state 0)
      = Raises RuntimeFault (LString ''boom'')"
    by (simp add: handled_call_def callee_def arguments_def lua_gettop_def handled_state_def)
  have e: "lua_error (push (LString ''boom'') handled_state)
      = Some (Raises RuntimeFault (LString ''boom''))"
    by (simp add: lua_error_def push_def)
  have r: "handled_call (LFunction 2) [LString ''boom''] = Returns [LString ''traceback'']"
    by (simp add: handled_call_def)
  have h0: "(0 :: int) \<noteq> 0 \<longrightarrow> index2value handled_state 0 = Some (LFunction 2)"
    by simp
  have h1: "(1 :: int) \<noteq> 0 \<longrightarrow> index2value handled_state 1 = Some (LFunction 2)"
    using h by simp
  have h': "index2value handled_state 2 = Some (LFunction 3)"
    by (simp add: index2value_def abs_index_def lua_gettop_def handled_state_def)
  then have h2: "(2 :: int) \<noteq> 0 \<longrightarrow> index2value handled_state 2 = Some (LFunction 3)"
    by simp
  have b: "handled_call (LFunction 3) [LString ''boom'']
      = Raises RuntimeFault (LString ''handler broke'')"
    by (simp add: handled_call_def)
  from pcall_fault [where call = handled_call and L = handled_state and nargs = 0
      and nresults = 0 and errfunc = 0 and h = "LFunction 2" and in_handler = fixed_message
      and Lc = "push (LString ''boom'') handled_state", OF n h0 f] e
  have "map_option fst (lua_pcall handled_call fixed_message handled_state 0 0 0)
       = Some LUA_ERRRUN
     \<and> Option.bind (lua_pcall handled_call fixed_message handled_state 0 0 0)
        (\<lambda>(st, L'). index2value L' (- 1)) = Some (LString ''boom'')"
    by auto
  moreover
  from pcall_fault [where call = handled_call and L = handled_state and nargs = 0
      and nresults = 0 and errfunc = 1 and h = "LFunction 2" and in_handler = fixed_message
      and Lc = handled_state, OF n h1 f] r
  have "map_option fst (lua_pcall handled_call fixed_message handled_state 0 0 1)
       = Some LUA_ERRRUN
     \<and> Option.bind (lua_pcall handled_call fixed_message handled_state 0 0 1)
        (\<lambda>(st, L'). index2value L' (- 1)) = Some (LString ''traceback'')"
    by auto
  moreover
  from pcall_fault [where call = handled_call and L = handled_state and nargs = 0
      and nresults = 0 and errfunc = 2 and h = "LFunction 3" and in_handler = fixed_message
      and Lc = handled_state, OF n h2 f] b
  have "map_option fst (lua_pcall handled_call fixed_message handled_state 0 0 2)
       = Some LUA_ERRERR"
    by auto
  ultimately show ?thesis
    using n h f e r h' b by simp
qed

text \<open>
  The claim as the specification states it, for every \<open>errfunc\<close>, fails where a handler
  is named.  The callee raises \<open>boom\<close> with an explicit error.  Under the handler in
  slot 1 the value left on top is the handler's traceback, not \<open>boom\<close>; under the
  handler in slot 2, which faults, the status is the error-in-handler code, not the
  runtime code.
\<close>

theorem pcall_handler_counterexample:
  "lua_error (push (LString ''boom'') handled_state)
       = Some (handled_call (callee handled_state 0) (arguments handled_state 0))
   \<and> map_option (\<lambda>(st, L'). (st, stack L'))
        (lua_pcall handled_call fixed_message handled_state 0 0 1)
       = Some (LUA_ERRRUN, [LFunction 2, LFunction 3, LString ''traceback''])
   \<and> LString ''traceback'' \<noteq> LString ''boom''
   \<and> map_option fst (lua_pcall handled_call fixed_message handled_state 0 0 2)
       = Some LUA_ERRERR
   \<and> LUA_ERRERR \<noteq> LUA_ERRRUN"
  by (simp add: lua_pcall_def handled_call_def handled_state_def callee_def arguments_def
      below_call_def index2value_def abs_index_def lua_gettop_def single_value_def
      lua_error_def push_def LUA_MULTRET_def LUA_REGISTRYINDEX_def LUA_ERRERR_def
      LUA_ERRRUN_def)

section \<open>What \<open>lua_getinfo\<close> writes\<close>

text \<open>
  Serving the letters of a selector one after the other gives each field the value of
  the frame if its letter occurs in the selector, and the value it had otherwise.
\<close>

lemma fold_getinfo_n:
  "name (fold (getinfo_field fr) sel ar) = (if CHR ''n'' \<in> set sel then f_name fr else name ar)"
  "namewhat (fold (getinfo_field fr) sel ar)
     = (if CHR ''n'' \<in> set sel then f_namewhat fr else namewhat ar)"
  by (induction sel arbitrary: ar) (simp_all add: getinfo_field_def)

lemma fold_getinfo_S:
  "what (fold (getinfo_field fr) sel ar) = (if CHR ''S'' \<in> set sel then f_what fr else what ar)"
  "source (fold (getinfo_field fr) sel ar)
     = (if CHR ''S'' \<in> set sel then f_source fr else source ar)"
  "linedefined (fold (getinfo_field fr) sel ar)
     = (if CHR ''S'' \<in> set sel then f_linedefined fr else linedefined ar)"
  "lastlinedefined (fold (getinfo_field fr) sel ar)
     = (if CHR ''S'' \<in> set sel then f_lastlinedefined fr else lastlinedefined ar)"
  "short_src (fold (getinfo_field fr) sel ar)
     = (if CHR ''S'' \<in> set sel then f_short_src fr else short_src ar)"
  by (induction sel arbitrary: ar) (simp_all add: getinfo_field_def)

lemma fold_getinfo_l:
  "currentline (fold (getinfo_field fr) sel ar)
     = (if CHR ''l'' \<in> set sel then f_currentline fr else currentline ar)"
  by (induction sel arbitrary: ar) (simp_all add: getinfo_field_def)

lemma fold_getinfo_u:
  "nups (fold (getinfo_field fr) sel ar) = (if CHR ''u'' \<in> set sel then f_nups fr else nups ar)"
  by (induction sel arbitrary: ar) (simp_all add: getinfo_field_def)

lemma fold_getinfo_private:
  "event (fold (getinfo_field fr) sel ar) = event ar"
  "i_ci (fold (getinfo_field fr) sel ar) = i_ci ar"
  by (induction sel arbitrary: ar) (simp_all add: getinfo_field_def)

lemma lua_getstack_found:
  "fst (lua_getstack L level ar) = 1 \<longleftrightarrow> 0 \<le> level \<and> level < int (length (frames L))"
  "fst (lua_getstack L level ar) = 1 \<Longrightarrow> i_ci (snd (lua_getstack L level ar)) = level"
  by (auto simp add: lua_getstack_def split: if_splits)

text \<open>
  Claim C9.  For every record that names a frame of the call chain, whatever its fields
  hold, and every selector string, \<open>lua_getinfo\<close> returns a record in which the fields
  of each letter in the selector hold the data of the frame (\<open>n\<close>: name and namewhat;
  \<open>S\<close>: what, source, linedefined, lastlinedefined and short_src; \<open>l\<close>:
  currentline; \<open>u\<close>: nups), and each of the nine fields whose letter is not in the
  selector holds its default value, that of \<open>dflt\<close>.  The two fields outside the
  list, \<open>event\<close> and the private \<open>i_ci\<close>, are as the caller passed them.
\<close>

theorem getinfo_selected_only:
  assumes "0 \<le> i_ci ar" and "i_ci ar < int (length (frames L))"
  shows "\<exists>ar'. lua_getinfo dflt L sel ar = Some ar'
    \<and> (CHR ''n'' \<in> set sel \<longrightarrow>
         name ar' = f_name (frames L ! nat (i_ci ar))
         \<and> namewhat ar' = f_namewhat (frames L ! nat (i_ci ar)))
    \<and> (CHR ''n'' \<notin> set sel \<longrightarrow> name ar' = name dflt \<and> namewhat ar' = namewhat dflt)
    \<and> (CHR ''S'' \<in> set sel \<longrightarrow>
         what ar' = f_what (frames L ! nat (i_ci ar))
         \<and> source ar' = f_source (frames L ! nat (i_ci ar))
         \<and> linedefined ar' = f_linedefined (frames L ! nat (i_ci ar))
         \<and> lastlinedefined ar' = f_lastlinedefined (frames L ! nat (i_ci ar))
         \<and> short_src ar' = f_short_src (frames L ! nat (i_ci ar)))
    \<and> (CHR ''S'' \<notin> set sel \<longrightarrow>
         what ar' = what dflt \<and> source ar' = source dflt
         \<and> linedefined ar' = linedefined dflt
         \<and> lastlinedefined ar' = lastlinedefined dflt \<and> short_src ar' = short_src dflt)
    \<and> (CHR ''l'' \<in> set sel \<longrightarrow> currentline ar' = f_currentline (frames L ! nat (i_ci ar)))
    \<and> (CHR ''l'' \<notin> set sel \<longrightarrow> currentline ar' = currentline dflt)
    \<and> (CHR ''u'' \<in> set sel \<longrightarrow> nups ar' = f_nups (frames L ! nat (i_ci ar)))
    \<and> (CHR ''u'' \<notin> set sel \<longrightarrow> nups ar' = nups dflt)
    \<and> event ar' = event ar \<and> i_ci ar' = i_ci ar"
proof -
  let ?ar' = "fold (getinfo_field (frames L ! nat (i_ci ar))) sel (reset_fields dflt ar)"
  from assms have "lua_getinfo dflt L sel ar = Some ?ar'"
    by (simp add: lua_getinfo_def)
  then show ?thesis
    by (simp add: fold_getinfo_n fold_getinfo_S fold_getinfo_l fold_getinfo_u
        fold_getinfo_private reset_fields_def)
qed

theorem getinfo_selected_only_witness:
  "0 \<le> i_ci stale_Debug \<and> i_ci stale_Debug < int (length (frames running_state))
   \<and> CHR ''n'' \<in> set ''nl'' \<and> CHR ''l'' \<in> set ''nl''
   \<and> CHR ''S'' \<notin> set ''nl'' \<and> CHR ''u'' \<notin> set ''nl''
   \<and> map_option name (lua_getinfo blank_Debug running_state ''nl'' stale_Debug)
       = Some (Some ''update'')
   \<and> map_option namewhat (lua_getinfo blank_Debug running_state ''nl'' stale_Debug)
       = Some (Some ''global'')
   \<and> map_option currentline (lua_getinfo blank_Debug running_state ''nl'' stale_Debug)
       = Some 12
   \<and> map_option what (lua_getinfo blank_Debug running_state ''nl'' stale_Debug) = Some None
   \<and> map_option source (lua_getinfo blank_Debug running_state ''nl'' stale_Debug)
       = Some None
   \<and> map_option short_src (lua_getinfo blank_Debug running_state ''nl'' stale_Debug)
       = Some (buffer_of [])
   \<and> map_option linedefined (lua_getinfo blank_Debug running_state ''nl'' stale_Debug)
       = Some (- 1)
   \<and> map_option lastlinedefined (lua_getinfo blank_Debug running_state ''nl'' stale_Debug)
       = Some (- 1)
   \<and> map_option nups (lua_getinfo blank_Debug running_state ''nl'' stale_Debug) = Some 0
   \<and> map_option event (lua_getinfo blank_Debug running_state ''nl'' stale_Debug) = Some 3"
proof -
  have i: "0 \<le> i_ci stale_Debug" "i_ci stale_Debug < int (length (frames running_state))"
    by (simp_all add: stale_Debug_def running_state_def)
  have fr: "frames running_state ! nat (i_ci stale_Debug) = update_frame"
    by (simp add: stale_Debug_def running_state_def)
  from getinfo_selected_only [OF i, of blank_Debug "''nl''"] obtain ar' where
    "lua_getinfo blank_Debug running_state ''nl'' stale_Debug = Some ar'"
    "name ar' = f_name update_frame" "namewhat ar' = f_namewhat update_frame"
    "currentline ar' = f_currentline update_frame"
    "what ar' = what blank_Debug" "source ar' = source blank_Debug"
    "short_src ar' = short_src blank_Debug" "linedefined ar' = linedefined blank_Debug"
    "lastlinedefined ar' = lastlinedefined blank_Debug" "nups ar' = nups blank_Debug"
    "event ar' = event stale_Debug"
    unfolding fr by auto
  with i show ?thesis
    by (simp add: update_frame_def blank_Debug_def stale_Debug_def)
qed

section \<open>The size of the short-source buffer\<close>

text \<open>
  The header sets \<open>LUA_IDSIZE\<close> to 128 where stock Lua has 60, and the short-source
  field has that many bytes.  When the bytes hold a terminated string, the string has at
  most 127 characters; the array built for a string of any length holds one.
\<close>

lemma LUA_IDSIZE_value: "LUA_IDSIZE = 128 \<and> LUA_IDSIZE \<noteq> 60"
  by (simp add: LUA_IDSIZE_def)

lemma id_buffer_capacity: "length (Rep_id_buffer b) = LUA_IDSIZE"
  using Rep_id_buffer [of b] by simp

lemma takeWhile_stops: "x \<in> set xs \<Longrightarrow> \<not> P x \<Longrightarrow> length (takeWhile P xs) < length xs"
  by (induction xs) auto

lemma terminated_in_buffer:
  assumes "length buf = LUA_IDSIZE" and "CHR 0x00 \<in> set buf"
  shows "length (takeWhile (\<lambda>c. c \<noteq> CHR 0x00) buf) \<le> 127"
proof -
  from assms(2) have "length (takeWhile (\<lambda>c. c \<noteq> CHR 0x00) buf) < length buf"
    by (rule takeWhile_stops) simp
  with assms(1) show ?thesis
    by (simp add: LUA_IDSIZE_def)
qed

lemma buffer_string_bound:
  "CHR 0x00 \<in> set (Rep_id_buffer b) \<Longrightarrow> length (buffer_string b) \<le> 127"
  unfolding buffer_string_def
  by (rule terminated_in_buffer [OF id_buffer_capacity])

lemma buffer_of_terminated: "CHR 0x00 \<in> set (Rep_id_buffer (buffer_of s))"
  by transfer (simp add: LUA_IDSIZE_def)


end
